theory Spec2Isabelle
  imports
    Main
    "HOL-Library.Finite_Map"
    "HOL-Library.Char_ord"
    "HOL-Library.List_Lexorder"
begin

section \<open>The configuration data model of \<^verbatim>\<open>flashlight/config/config.go\<close>\<close>

text \<open>
  Go pointers that may be nil are options (\<open>None\<close> is nil). A slice is a
  \<open>list option\<close>: \<open>None\<close> is the nil slice and \<open>Some []\<close> the empty, non-nil
  one; \<open>len\<close> is 0 for both. A Go map is a finite map under an option, \<open>None\<close>
  being the nil map. A \<open>[]byte\<close> is a list of characters (a \<open>char\<close> is one byte),
  and strings are compared bytewise, as Go compares them.
\<close>

type_synonym bytes = string

type_synonym 'a slice = "'a list option"

definition len :: "'a slice \<Rightarrow> nat" where
  "len s = (case s of None \<Rightarrow> 0 | Some xs \<Rightarrow> length xs)"

definition elems :: "'a slice \<Rightarrow> 'a list" where
  "elems s = (case s of None \<Rightarrow> [] | Some xs \<Rightarrow> xs)"

type_synonym ('k, 'v) gomap = "('k, 'v) fmap option"


text \<open>The certificate authority of lines 80-83.\<close>

record CA =
  CommonName :: string
  Cert :: string

text \<open>
  The types of the packages \<^verbatim>\<open>client\<close>, \<^verbatim>\<open>fronted\<close>, \<^verbatim>\<open>proxiedsites\<close>,
  \<^verbatim>\<open>statreporter\<close> and \<^verbatim>\<open>server\<close> are declared outside this file; they are
  given here with the fields that \<^verbatim>\<open>config.go\<close> mentions. A masquerade and a
  server configuration are only stored, never inspected.
\<close>

record Masquerade =
  MasqDomain :: string
  IpAddress :: string

typedecl ServerConfig

record FrontedServerInfo =
  Host :: string
  Port :: int
  PoolSize :: int
  MasqueradeSet :: string
  MaxMasquerades :: int
  QOS :: int
  Weight :: int
  Trusted :: bool
  RedialAttempts :: int

record ChainedServerInfo =
  ChainedAddr :: string
  AuthToken :: string

record ClientConfig =
  FrontedServers :: "FrontedServerInfo option slice"
  ChainedServers :: "(string, ChainedServerInfo) gomap"
  MasqueradeSets :: "(string, Masquerade slice) gomap"

record Delta =
  Additions :: "string slice"
  Deletions :: "string slice"

record ProxiedSitesConfig =
  Delta :: "Delta option"
  Cloud :: "string slice"

record StatsConfig =
  StatshubAddr :: string

text \<open>The struct \<^verbatim>\<open>Config\<close> of lines 54-71.\<close>

record Config =
  Version :: int
  CloudConfig :: string
  CloudConfigCA :: string
  Addr :: string
  Role :: string
  InstanceId :: string
  CpuProfile :: string
  MemProfile :: string
  UIAddr :: string
  AutoReport :: "bool option"
  AutoLaunch :: "bool option"
  Stats :: "StatsConfig option"
  Server :: "ServerConfig option"
  Client :: "ClientConfig option"
  ProxiedSites :: "ProxiedSitesConfig option"
  TrustedCAs :: "CA slice"

text \<open>The value \<^verbatim>\<open>&Config{}\<close> that \<^verbatim>\<open>EmptyConfig\<close> builds (line 182).\<close>

definition EmptyConfig :: Config where
  "EmptyConfig = \<lparr> Version = 0, CloudConfig = [], CloudConfigCA = [], Addr = [], Role = [],
     InstanceId = [], CpuProfile = [], MemProfile = [], UIAddr = [], AutoReport = None,
     AutoLaunch = None, Stats = None, Server = None, Client = None, ProxiedSites = None,
     TrustedCAs = None \<rparr>"

section \<open>The polling interval\<close>

text \<open>
  Durations are nanoseconds (\<^verbatim>\<open>time.Duration\<close> is an \<^verbatim>\<open>int64\<close>); every value
  computed here stays below \<open>2 ^ 63\<close>, so \<open>int\<close> arithmetic is the machine's.
\<close>

definition Second :: int where
  "Second = 1000000000"

definition Minute :: int where
  "Minute = 60 * Second"

definition CloudConfigPollInterval :: int where
  "CloudConfigPollInterval = 1 * Minute"

text \<open>
  \<^verbatim>\<open>cloudPollSleepTime\<close> (lines 543-545). The argument \<open>draw\<close> is the value that
  \<^verbatim>\<open>rand.Int63n(CloudConfigPollInterval.Nanoseconds())\<close> returns at this call.
\<close>

definition cloudPollSleepTime :: "int \<Rightarrow> int" where
  "cloudPollSleepTime draw = (CloudConfigPollInterval div 2) + draw"

section \<open>The deserializer\<close>

text \<open>
  \<^verbatim>\<open>yaml.Unmarshal(updateBytes, updated)\<close> writes through the pointer it is given
  and returns an error or nil. A deserializer is therefore a function from the
  payload and the target to the error (if any) and the target as it leaves it.
  \<^verbatim>\<open>updateFrom\<close> takes the deserializer as a parameter.
\<close>

type_synonym unmarshal = "bytes \<Rightarrow> Config \<Rightarrow> string option \<times> Config"

text \<open>
  A parsed payload gives each field as absent (\<open>None\<close>) or present with a value.
  These are the documents that the deserializer described by the spec reads
  (\<open>yaml_Unmarshal\<close> below).
\<close>

record StatsDoc =
  doc_StatshubAddr :: "string option"

record ClientDoc =
  doc_FrontedServers :: "FrontedServerInfo option list option"
  doc_ChainedServers :: "(string, ChainedServerInfo) fmap option"
  doc_MasqueradeSets :: "(string, Masquerade slice) fmap option"

record ProxiedSitesDoc =
  doc_Delta :: "Delta option"
  doc_Cloud :: "string list option"

record Doc =
  doc_Version :: "int option"
  doc_CloudConfig :: "string option"
  doc_CloudConfigCA :: "string option"
  doc_Addr :: "string option"
  doc_Role :: "string option"
  doc_InstanceId :: "string option"
  doc_CpuProfile :: "string option"
  doc_MemProfile :: "string option"
  doc_UIAddr :: "string option"
  doc_AutoReport :: "bool option"
  doc_AutoLaunch :: "bool option"
  doc_Stats :: "StatsDoc option"
  doc_Server :: "ServerConfig option"
  doc_Client :: "ClientDoc option"
  doc_ProxiedSites :: "ProxiedSitesDoc option"
  doc_TrustedCAs :: "CA list option"

text \<open>A field of the target keeps its value unless the payload gives one.\<close>

definition overwrite :: "'a option \<Rightarrow> 'a \<Rightarrow> 'a" where
  "overwrite present current = (case present of None \<Rightarrow> current | Some v \<Rightarrow> v)"

definition overwrite_ptr :: "'a option \<Rightarrow> 'a option \<Rightarrow> 'a option" where
  "overwrite_ptr present current = (case present of None \<Rightarrow> current | Some v \<Rightarrow> Some v)"

definition decode_Stats :: "StatsDoc \<Rightarrow> StatsConfig option \<Rightarrow> StatsConfig" where
  "decode_Stats d current =
     (let s = (case current of None \<Rightarrow> \<lparr> StatshubAddr = [] \<rparr> | Some s \<Rightarrow> s)
      in s\<lparr> StatshubAddr := overwrite (doc_StatshubAddr d) (StatshubAddr s) \<rparr>)"

definition decode_Client :: "ClientDoc \<Rightarrow> ClientConfig option \<Rightarrow> ClientConfig" where
  "decode_Client d current =
     (let c = (case current of
                 None \<Rightarrow> \<lparr> FrontedServers = None, ChainedServers = None, MasqueradeSets = None \<rparr>
               | Some c \<Rightarrow> c)
      in c\<lparr> FrontedServers := overwrite_ptr (doc_FrontedServers d) (FrontedServers c),
            ChainedServers := overwrite_ptr (doc_ChainedServers d) (ChainedServers c),
            MasqueradeSets := overwrite_ptr (doc_MasqueradeSets d) (MasqueradeSets c) \<rparr>)"

definition decode_ProxiedSites :: "ProxiedSitesDoc \<Rightarrow> ProxiedSitesConfig option \<Rightarrow> ProxiedSitesConfig" where
  "decode_ProxiedSites d current =
     (let p = (case current of None \<Rightarrow> \<lparr> Delta = None, Cloud = None \<rparr> | Some p \<Rightarrow> p)
      in p\<lparr> Delta := overwrite_ptr (doc_Delta d) (Delta p),
            Cloud := overwrite_ptr (doc_Cloud d) (Cloud p) \<rparr>)"

text \<open>
  Modelled from the spec: the decoding step of \<^verbatim>\<open>yaml.Unmarshal\<close> (package
  \<^verbatim>\<open>getlantern/yaml\<close>, absent from the sources at hand). The spec describes it as
  deserializing onto an existing typed structure, overwriting only fields present in
  the payload; a nested structure that is nil in the target is allocated when the
  payload names it.
\<close>

definition decode :: "Doc \<Rightarrow> Config \<Rightarrow> Config" where
  "decode d cfg =
     cfg\<lparr> Version := overwrite (doc_Version d) (Version cfg),
          CloudConfig := overwrite (doc_CloudConfig d) (CloudConfig cfg),
          CloudConfigCA := overwrite (doc_CloudConfigCA d) (CloudConfigCA cfg),
          Addr := overwrite (doc_Addr d) (Addr cfg),
          Role := overwrite (doc_Role d) (Role cfg),
          InstanceId := overwrite (doc_InstanceId d) (InstanceId cfg),
          CpuProfile := overwrite (doc_CpuProfile d) (CpuProfile cfg),
          MemProfile := overwrite (doc_MemProfile d) (MemProfile cfg),
          UIAddr := overwrite (doc_UIAddr d) (UIAddr cfg),
          AutoReport := overwrite_ptr (doc_AutoReport d) (AutoReport cfg),
          AutoLaunch := overwrite_ptr (doc_AutoLaunch d) (AutoLaunch cfg),
          Stats := (case doc_Stats d of None \<Rightarrow> Stats cfg
                    | Some sd \<Rightarrow> Some (decode_Stats sd (Stats cfg))),
          Server := overwrite_ptr (doc_Server d) (Server cfg),
          Client := (case doc_Client d of None \<Rightarrow> Client cfg
                     | Some cd \<Rightarrow> Some (decode_Client cd (Client cfg))),
          ProxiedSites := (case doc_ProxiedSites d of None \<Rightarrow> ProxiedSites cfg
                           | Some pd \<Rightarrow> Some (decode_ProxiedSites pd (ProxiedSites cfg))),
          TrustedCAs := overwrite_ptr (doc_TrustedCAs d) (TrustedCAs cfg) \<rparr>"

text \<open>
  Modelled from the spec: \<^verbatim>\<open>yaml.Unmarshal\<close> (package \<^verbatim>\<open>getlantern/yaml\<close>, absent
  from the sources at hand), which deserializes a byte payload onto an existing typed
  structure, overwriting only fields present in the payload. The grammar (\<open>parse\<close>,
  from bytes to a document or an error) is a parameter; a payload that the grammar
  rejects is malformed, and nothing is written for it.
\<close>

definition yaml_Unmarshal :: "(bytes \<Rightarrow> string + Doc) \<Rightarrow> unmarshal" where
  "yaml_Unmarshal parse updateBytes target =
     (case parse updateBytes of
        Inl err \<Rightarrow> (Some err, target)
      | Inr d \<Rightarrow> (None, decode d target))"

text \<open>The payload that gives no field at all (an empty document).\<close>

definition EmptyDoc :: Doc where
  "EmptyDoc = \<lparr> doc_Version = None, doc_CloudConfig = None, doc_CloudConfigCA = None,
     doc_Addr = None, doc_Role = None, doc_InstanceId = None, doc_CpuProfile = None,
     doc_MemProfile = None, doc_UIAddr = None, doc_AutoReport = None, doc_AutoLaunch = None,
     doc_Stats = None, doc_Server = None, doc_Client = None, doc_ProxiedSites = None,
     doc_TrustedCAs = None \<rparr>"

section \<open>Merging an update: \<^verbatim>\<open>updateFrom\<close>\<close>

text \<open>
  \<^verbatim>\<open>updateFrom\<close> has a pointer receiver and returns only an error: the merged
  configuration is what the receiver holds afterwards. The model returns how the call
  ended together with the receiver's final contents. Dereferencing a nil pointer
  panics; the contents are then those at the moment of the panic.
\<close>

datatype outcome = OK | Error string | Panic

text \<open>Lines 628-631: the four collections are set to empty, non-nil values.\<close>

definition clearCollections :: "ClientConfig \<Rightarrow> Config \<Rightarrow> Config" where
  "clearCollections c updated =
     updated\<lparr> Client := Some (c\<lparr> FrontedServers := Some [],
                                 ChainedServers := Some fmempty,
                                 MasqueradeSets := Some fmempty \<rparr>),
              TrustedCAs := Some [] \<rparr>"

text \<open>
  Lines 634-637: the saved values are written back. The first assignment goes through
  \<^verbatim>\<open>updated.Client\<close>, which the deserializer may have left nil.
\<close>

definition restoreCollections :: "ClientConfig \<Rightarrow> CA slice \<Rightarrow> Config \<Rightarrow> Config option" where
  "restoreCollections old oldTrustedCAs updated =
     (case Client updated of
        None \<Rightarrow> None
      | Some c \<Rightarrow>
          Some (updated\<lparr> Client := Some (c\<lparr> FrontedServers := FrontedServers old,
                                            ChainedServers := ChainedServers old,
                                            MasqueradeSets := MasqueradeSets old \<rparr>),
                         TrustedCAs := oldTrustedCAs \<rparr>))"

text \<open>
  Lines 642-645: every domain becomes a key of the map \<^verbatim>\<open>wlDomains\<close>. The map is
  kept as the list of its keys in the order of first insertion.
\<close>

definition wlDomains :: "string list \<Rightarrow> string list" where
  "wlDomains cloud =
     fold (\<lambda>domain keys. if domain \<in> set keys then keys else keys @ [domain]) cloud []"

text \<open>
  Lines 646-650: the keys are appended in the order in which Go ranges over the map,
  which is unspecified, and then sorted by \<^verbatim>\<open>sort.Strings\<close>. The model ranges in
  insertion order; \<open>sort\<close> gives the same list for every other order of the keys
  (lemma \<open>sort_range_order\<close> below).
\<close>

definition dedupCloud :: "string list \<Rightarrow> string list" where
  "dedupCloud cloud = sort (wlDomains cloud)"

definition updateFrom :: "unmarshal \<Rightarrow> bytes \<Rightarrow> Config \<Rightarrow> outcome \<times> Config" where
  "updateFrom unmarshal updateBytes updated =
     (case Client updated of
        None \<Rightarrow> (Panic, updated)
      | Some old \<Rightarrow>
          (let oldTrustedCAs = TrustedCAs updated in
           case unmarshal updateBytes (clearCollections old updated) of
             (Some err, u1) \<Rightarrow>
               (case restoreCollections old oldTrustedCAs u1 of
                  None \<Rightarrow> (Panic, u1)
                | Some u2 \<Rightarrow> (Error (''Unable to unmarshal YAML for update: '' @ err), u2))
           | (None, u1) \<Rightarrow>
               (case ProxiedSites u1 of
                  None \<Rightarrow> (Panic, u1)
                | Some ps \<Rightarrow>
                    if len (Cloud ps) > 0
                    then (OK, u1\<lparr> ProxiedSites :=
                                     Some (ps\<lparr> Cloud := Some (dedupCloud (elems (Cloud ps))) \<rparr>) \<rparr>)
                    else (OK, u1))))"

section \<open>The conditional fetch and the cache of validation tokens\<close>

text \<open>
  \<^verbatim>\<open>lastCloudConfigETag\<close> (line 49) is a non-nil map from URL to token; reading a
  missing key gives the empty string.
\<close>

type_synonym etag_cache = "(string, string) fmap"

definition cache_get :: "etag_cache \<Rightarrow> string \<Rightarrow> string" where
  "cache_get cache url = (case fmlookup cache url of None \<Rightarrow> [] | Some tag \<Rightarrow> tag)"

definition etag :: string where
  "etag = ''X-Lantern-Etag''"

definition ifNoneMatch :: string where
  "ifNoneMatch = ''X-Lantern-If-None-Match''"

text \<open>
  Requests and responses with the parts the code touches. A header is kept under the
  name the code writes; \<^verbatim>\<open>Header.Get\<close> gives the empty string for a header that is
  not there.
\<close>

record Request =
  Method :: string
  URL :: string
  ReqHeader :: "(string, string) fmap"
  Close :: bool

record Response =
  StatusCode :: int
  Header :: "(string, string) fmap"
  Body :: bytes

definition Header_Set :: "string \<Rightarrow> string \<Rightarrow> Request \<Rightarrow> Request" where
  "Header_Set key v req = req\<lparr> ReqHeader := fmupd key v (ReqHeader req) \<rparr>"

definition Header_Get :: "Response \<Rightarrow> string \<Rightarrow> string" where
  "Header_Get resp key = (case fmlookup (Header resp) key of None \<Rightarrow> [] | Some v \<Rightarrow> v)"

text \<open>The errors that the fetch builds with \<^verbatim>\<open>fmt.Errorf\<close>, or passes on.\<close>

datatype fetch_error =
    RequestError string string
  | FetchError string string
  | UnexpectedStatus int
  | GzipOpenError string
  | ReadError string

text \<open>
  The standard library is a parameter. \<open>NewRequest_error url\<close> is the error of
  \<^verbatim>\<open>http.NewRequest("GET", url, nil)\<close>, if any. \<open>gunzip body\<close> is what reading the
  body through gzip gives: \<^verbatim>\<open>gzip.NewReader\<close> fails, or it opens and
  \<^verbatim>\<open>ioutil.ReadAll\<close> returns the bytes read and possibly an error.
\<close>

datatype gunzipped = NoGzipHeader string | Inflated bytes "string option"

record Lib =
  NewRequest_error :: "string \<Rightarrow> string option"
  gunzip :: "bytes \<Rightarrow> gunzipped"

text \<open>An \<^verbatim>\<open>http.Client\<close> is what its \<^verbatim>\<open>Do\<close> answers: an error or a response.\<close>

type_synonym http_client = "Request \<Rightarrow> string + Response"

text \<open>
  A Go result \<^verbatim>\<open>([]byte, error)\<close>: the body (\<open>None\<close> is nil) and the error
  (\<open>None\<close> is nil).
\<close>

type_synonym fetched = "bytes option \<times> fetch_error option"

text \<open>\<^verbatim>\<open>readConfigResponse\<close>, lines 602-617.\<close>

definition readConfigResponse ::
  "Lib \<Rightarrow> string \<Rightarrow> Response \<Rightarrow> etag_cache \<Rightarrow> fetched \<times> etag_cache" where
  "readConfigResponse lib url resp cache =
     (if StatusCode resp = 304 then ((None, None), cache)
      else if StatusCode resp \<noteq> 200
        then ((None, Some (UnexpectedStatus (StatusCode resp))), cache)
      else
        (let cache' = fmupd url (Header_Get resp etag) cache in
         case gunzip lib (Body resp) of
           NoGzipHeader err \<Rightarrow> ((None, Some (GzipOpenError err)), cache')
         | Inflated body err \<Rightarrow> ((Some body, map_option ReadError err), cache')))"

text \<open>The request that lines 568-587 build.\<close>

definition buildRequest :: "string \<Rightarrow> string \<Rightarrow> etag_cache \<Rightarrow> Request" where
  "buildRequest url authToken cache =
     (let req0 = \<lparr> Method = ''GET'', URL = url, ReqHeader = fmempty, Close = False \<rparr>;
          req1 = (if cache_get cache url \<noteq> []
                  then Header_Set ifNoneMatch (cache_get cache url) req0 else req0);
          req2 = (if authToken \<noteq> []
                  then Header_Set ''X-LANTERN-AUTH-TOKEN'' authToken req1 else req1);
          req3 = Header_Set ''Cache-Control'' ''no-cache'' req2
      in req3\<lparr> Close := True \<rparr>)"

text \<open>\<^verbatim>\<open>fetchCloudConfig\<close>, lines 566-600.\<close>

definition fetchCloudConfig ::
  "Lib \<Rightarrow> http_client \<Rightarrow> string \<Rightarrow> string \<Rightarrow> etag_cache \<Rightarrow> fetched \<times> etag_cache" where
  "fetchCloudConfig lib client url authToken cache =
     (case NewRequest_error lib url of
        Some err \<Rightarrow> ((None, Some (RequestError url err)), cache)
      | None \<Rightarrow>
          (case client (buildRequest url authToken cache) of
             Inl err \<Rightarrow> ((None, Some (FetchError url err)), cache)
           | Inr resp \<Rightarrow> readConfigResponse lib url resp cache))"

section \<open>One poll: \<^verbatim>\<open>pollWithHttpClient\<close>\<close>

text \<open>
  The function returns one of two closures: the one that does nothing (lines 282-285)
  or the one that merges the fetched bytes into the configuration it is applied to
  (lines 302-306).
\<close>

datatype mutation = DoNothing | MergeCloud bytes

text \<open>
  \<^verbatim>\<open>pollWithHttpClient\<close>, lines 280-313: the closure, the wait and the error,
  together with the cache as the fetch leaves it.
\<close>

definition pollWithHttpClient ::
  "Lib \<Rightarrow> http_client \<Rightarrow> int \<Rightarrow> Config \<Rightarrow> etag_cache
     \<Rightarrow> (mutation \<times> int \<times> fetch_error option) \<times> etag_cache" where
  "pollWithHttpClient lib client draw cfg cache =
     (let waitTime = cloudPollSleepTime draw in
      if CloudConfig cfg = [] then ((DoNothing, waitTime, None), cache)
      else
        (case fetchCloudConfig lib client (CloudConfig cfg) [] cache of
           ((body, None), cache') \<Rightarrow>
             ((case body of None \<Rightarrow> DoNothing | Some b \<Rightarrow> MergeCloud b, waitTime, None), cache')
         | ((body, Some err), cache') \<Rightarrow> ((DoNothing, waitTime, Some err), cache')))"

section \<open>Configurations behind pointers\<close>





section \<open>Defaults: \<^verbatim>\<open>ApplyDefaults\<close> and \<^verbatim>\<open>applyClientDefaults\<close>\<close>





























section \<open>The bootstrap race\<close>









section \<open>Example values\<close>

definition exampleURL :: string where
  "exampleURL = ''http://d2wi0vwulmtn99.cloudfront.net/cloud.yaml.gz''"

definition chained3 :: "(string, ChainedServerInfo) fmap" where
  "chained3 = fmupd ''a'' \<lparr> ChainedAddr = ''1.1.1.1:443'', AuthToken = ''t1'' \<rparr>
             (fmupd ''b'' \<lparr> ChainedAddr = ''2.2.2.2:443'', AuthToken = ''t2'' \<rparr>
             (fmupd ''c'' \<lparr> ChainedAddr = ''3.3.3.3:443'', AuthToken = ''t3'' \<rparr> fmempty))"

definition exampleClient :: ClientConfig where
  "exampleClient = \<lparr> FrontedServers = Some [], ChainedServers = Some chained3,
     MasqueradeSets = Some fmempty \<rparr>"

definition exampleConfig :: Config where
  "exampleConfig = EmptyConfig\<lparr> CloudConfig := exampleURL, Addr := ''127.0.0.1:8787'',
     Role := ''client'', Client := Some exampleClient,
     ProxiedSites := Some \<lparr> Delta = None, Cloud = Some [''x.org''] \<rparr>,
     TrustedCAs := Some [\<lparr> CommonName = ''ca'', Cert = ''pem'' \<rparr>] \<rparr>"

text \<open>
  A deserializer that decodes the fields it can and then reports the one it cannot: for
  the payload below it stores the address and returns an error for the version, which
  is not an integer. The signature of \<^verbatim>\<open>Unmarshal\<close> (target written through the
  pointer, error returned) allows it.
\<close>

definition badVersionPayload :: bytes where
  "badVersionPayload = ''{addr: 0.0.0.0:1, version: abc}''"

definition unmarshal_then_fail :: unmarshal where
  "unmarshal_then_fail updateBytes target =
     (if updateBytes = badVersionPayload
      then (Some ''yaml: unmarshal errors: cannot unmarshal abc into int'',
            decode (EmptyDoc\<lparr> doc_Addr := Some ''0.0.0.0:1'' \<rparr>) target)
      else (Some ''yaml: did not find expected key'', target))"

text \<open>A grammar that rejects every payload.\<close>

definition parse_fails :: "bytes \<Rightarrow> string + Doc" where
  "parse_fails updateBytes = Inl ''yaml: did not find expected key''"

text \<open>
  A payload that names one chained server and a cloud list with a duplicate, out of
  order, and the grammar that reads it.
\<close>

definition exampleDoc :: Doc where
  "exampleDoc = EmptyDoc\<lparr>
     doc_Client := Some \<lparr> doc_FrontedServers = None,
       doc_ChainedServers = Some (fmupd ''z'' \<lparr> ChainedAddr = ''9.9.9.9:443'', AuthToken = ''t9'' \<rparr> fmempty),
       doc_MasqueradeSets = None \<rparr>,
     doc_ProxiedSites := Some \<lparr> doc_Delta = None, doc_Cloud = Some [''b.com'', ''a.com'', ''a.com''] \<rparr> \<rparr>"

definition examplePayload :: bytes where
  "examplePayload = ''client: {chainedservers: {z: {addr: 9.9.9.9:443, authtoken: t9}}}, proxiedsites: {cloud: [b.com, a.com, a.com]}''"

definition parse_example :: "bytes \<Rightarrow> string + Doc" where
  "parse_example updateBytes =
     (if updateBytes = examplePayload then Inr exampleDoc
      else Inl ''yaml: did not find expected key'')"

text \<open>What the merge of the example payload into the example configuration gives.\<close>

definition mergedExample :: Config where
  "mergedExample = exampleConfig\<lparr>
     Client := Some \<lparr> FrontedServers = Some [],
       ChainedServers = Some (fmupd ''z'' \<lparr> ChainedAddr = ''9.9.9.9:443'', AuthToken = ''t9'' \<rparr> fmempty),
       MasqueradeSets = Some fmempty \<rparr>,
     ProxiedSites := Some \<lparr> Delta = None, Cloud = Some [''a.com'', ''b.com''] \<rparr>,
     TrustedCAs := Some [] \<rparr>"

text \<open>
  A library whose gzip accepts the bodies that start with \<open>gz:\<close> and gives the rest,
  and two servers: one that answers by the validation token it is sent, one that sends
  a new token with a body that is not gzip.
\<close>

definition exampleLib :: Lib where
  "exampleLib = \<lparr> NewRequest_error = (\<lambda>url. None),
     gunzip = (\<lambda>body. if take 3 body = ''gz:'' then Inflated (drop 3 body) None
                       else NoGzipHeader ''gzip: invalid header'') \<rparr>"

definition exampleServer :: http_client where
  "exampleServer req =
     (if fmlookup (ReqHeader req) ifNoneMatch = Some ''v2''
      then Inr \<lparr> StatusCode = 304, Header = fmempty, Body = [] \<rparr>
      else Inr \<lparr> StatusCode = 200, Header = fmupd etag ''v2'' fmempty, Body = ''gz:role: client'' \<rparr>)"

definition corruptServer :: http_client where
  "corruptServer req =
     Inr \<lparr> StatusCode = 200, Header = fmupd etag ''v2'' fmempty, Body = ''<html>'' \<rparr>"











section \<open>Properties of \<^verbatim>\<open>updateFrom\<close>\<close>

lemma restore_clear:
  "Client cfg = Some c \<Longrightarrow> restoreCollections c (TrustedCAs cfg) (clearCollections c cfg) = Some cfg"
  by (simp add: restoreCollections_def clearCollections_def)

text \<open>
  Claim C1 (merge atomicity), as the code has it. When the receiver has a client
  sub-configuration and the deserializer fails, leaving a client sub-configuration in
  place, \<^verbatim>\<open>updateFrom\<close> returns an error, the fronted-server list, the
  chained-server map, the masquerade-set map and the trusted-CA list have the values
  they had before the call, and every other field is as the deserializer left it. So
  the whole configuration is unchanged whenever the deserializer writes nothing before
  it fails.
\<close>

theorem updateFrom_failure_restores:
  assumes "Client cfg = Some c"
    and "unmarshal b (clearCollections c cfg) = (Some err, u1)"
    and "Client u1 = Some c1"
  shows "updateFrom unmarshal b cfg =
           (Error (''Unable to unmarshal YAML for update: '' @ err),
            u1\<lparr> Client := Some (c1\<lparr> FrontedServers := FrontedServers c,
                                     ChainedServers := ChainedServers c,
                                     MasqueradeSets := MasqueradeSets c \<rparr>),
                TrustedCAs := TrustedCAs cfg \<rparr>)
         \<and> (u1 = clearCollections c cfg \<longrightarrow> snd (updateFrom unmarshal b cfg) = cfg)"
proof -
  have r: "restoreCollections c (TrustedCAs cfg) u1 =
             Some (u1\<lparr> Client := Some (c1\<lparr> FrontedServers := FrontedServers c,
                                     ChainedServers := ChainedServers c,
                                     MasqueradeSets := MasqueradeSets c \<rparr>),
                TrustedCAs := TrustedCAs cfg \<rparr>)"
    using assms(3) by (simp add: restoreCollections_def)
  have eq: "updateFrom unmarshal b cfg =
           (Error (''Unable to unmarshal YAML for update: '' @ err),
            u1\<lparr> Client := Some (c1\<lparr> FrontedServers := FrontedServers c,
                                     ChainedServers := ChainedServers c,
                                     MasqueradeSets := MasqueradeSets c \<rparr>),
                TrustedCAs := TrustedCAs cfg \<rparr>)"
    using assms(1,2) r by (simp add: updateFrom_def)
  have "snd (updateFrom unmarshal b cfg) = cfg" if "u1 = clearCollections c cfg"
    using that assms(1,2) restore_clear [OF assms(1)] by (simp add: updateFrom_def)
  with eq show ?thesis by blast
qed

text \<open>
  The theorem at a configuration with three chained servers and a payload that the
  grammar rejects: the error is returned and the configuration is the one before the
  call.
\<close>

theorem updateFrom_failure_restores_witness:
  "updateFrom (yaml_Unmarshal parse_fails) ''addr: [oops'' exampleConfig =
     (Error ''Unable to unmarshal YAML for update: yaml: did not find expected key'', exampleConfig)"
proof -
  have c: "Client exampleConfig = Some exampleClient"
    by (simp add: exampleConfig_def)
  have u: "yaml_Unmarshal parse_fails ''addr: [oops'' (clearCollections exampleClient exampleConfig)
             = (Some ''yaml: did not find expected key'', clearCollections exampleClient exampleConfig)"
    by (simp add: yaml_Unmarshal_def parse_fails_def)
  have c1: "Client (clearCollections exampleClient exampleConfig) =
              Some (exampleClient\<lparr> FrontedServers := Some [], ChainedServers := Some fmempty,
                                   MasqueradeSets := Some fmempty \<rparr>)"
    by (simp add: clearCollections_def)
  note t = updateFrom_failure_restores
         [where unmarshal = "yaml_Unmarshal parse_fails" and cfg = exampleConfig
            and c = exampleClient, OF c u c1]
  from t have a: "fst (updateFrom (yaml_Unmarshal parse_fails) ''addr: [oops'' exampleConfig) =
      Error ''Unable to unmarshal YAML for update: yaml: did not find expected key''"
    by simp
  from t have b: "snd (updateFrom (yaml_Unmarshal parse_fails) ''addr: [oops'' exampleConfig) =
      exampleConfig"
    by blast
  from a b show ?thesis by (simp add: prod_eq_iff)
qed

text \<open>
  Claim C1 as the spec words it (for every configuration and every failing payload the
  call returns an error and no field changes) is false. With a deserializer that has
  stored the address before it reports an error the address stays changed, since only
  the four collections are written back; and on a receiver without a client
  sub-configuration the call panics at line 624 instead of returning an error.
\<close>

theorem updateFrom_partial_write_counterexample:
  "updateFrom unmarshal_then_fail badVersionPayload exampleConfig =
     (Error ''Unable to unmarshal YAML for update: yaml: unmarshal errors: cannot unmarshal abc into int'',
      exampleConfig\<lparr> Addr := ''0.0.0.0:1'' \<rparr>)
   \<and> Addr exampleConfig = ''127.0.0.1:8787''
   \<and> Addr (exampleConfig\<lparr> Addr := ''0.0.0.0:1'' \<rparr>) = ''0.0.0.0:1''
   \<and> updateFrom (yaml_Unmarshal parse_fails) badVersionPayload EmptyConfig = (Panic, EmptyConfig)"
proof -
  have a: "Addr exampleConfig = ''127.0.0.1:8787''"
    by (simp add: exampleConfig_def EmptyConfig_def)
  have p: "updateFrom (yaml_Unmarshal parse_fails) badVersionPayload EmptyConfig
             = (Panic, EmptyConfig)"
    by (simp add: updateFrom_def EmptyConfig_def)
  have "updateFrom unmarshal_then_fail badVersionPayload exampleConfig =
     (Error ''Unable to unmarshal YAML for update: yaml: unmarshal errors: cannot unmarshal abc into int'',
      exampleConfig\<lparr> Addr := ''0.0.0.0:1'' \<rparr>)"
    by (simp add: updateFrom_def unmarshal_then_fail_def exampleConfig_def EmptyConfig_def
        exampleClient_def clearCollections_def restoreCollections_def decode_def EmptyDoc_def
        overwrite_def overwrite_ptr_def)
  with a p show ?thesis by simp
qed

text \<open>
  The call returns, with or without an error, when the client sub-configuration is
  there and the deserializer leaves it and the proxied-sites policy in place.
\<close>

lemma updateFrom_returns:
  assumes "Client cfg = Some c"
    and "unmarshal b (clearCollections c cfg) = (e, u1)"
    and "Client u1 \<noteq> None" and "ProxiedSites u1 \<noteq> None"
  shows "fst (updateFrom unmarshal b cfg) \<noteq> Panic"
  using assms
  by (auto simp: updateFrom_def restoreCollections_def split: option.splits)

text \<open>
  Claim C10 (merge never panics) fails on the value that \<^verbatim>\<open>EmptyConfig\<close> builds:
  \<^verbatim>\<open>updated.Client\<close> is nil and line 624 dereferences it, whatever the payload
  and the deserializer. It fails as well at line 641 when the client
  sub-configuration is there but the proxied-sites policy is nil and the payload does
  not name it.
\<close>

theorem updateFrom_panics_on_nil:
  "updateFrom unmarshal updateBytes EmptyConfig = (Panic, EmptyConfig)
   \<and> fst (updateFrom (yaml_Unmarshal (\<lambda>b. Inr EmptyDoc)) updateBytes
              (EmptyConfig\<lparr> Client := Some exampleClient \<rparr>)) = Panic"
  by (simp add: updateFrom_def EmptyConfig_def yaml_Unmarshal_def decode_def EmptyDoc_def
      overwrite_def overwrite_ptr_def clearCollections_def)

lemma fold_keys_set:
  "set (fold (\<lambda>domain keys. if domain \<in> set keys then keys else keys @ [domain]) cloud ks)
     = set ks \<union> set cloud"
  by (induction cloud arbitrary: ks) auto

lemma fold_keys_distinct:
  "distinct ks \<Longrightarrow>
   distinct (fold (\<lambda>domain keys. if domain \<in> set keys then keys else keys @ [domain]) cloud ks)"
  by (induction cloud arbitrary: ks) auto

lemma set_wlDomains: "set (wlDomains cloud) = set cloud"
  by (simp add: wlDomains_def fold_keys_set)

lemma distinct_wlDomains: "distinct (wlDomains cloud)"
  by (simp add: wlDomains_def fold_keys_distinct)

lemma set_dedupCloud: "set (dedupCloud cloud) = set cloud"
  by (simp add: dedupCloud_def set_wlDomains)

lemma strict_sorted_dedupCloud: "sorted_wrt (<) (dedupCloud cloud)"
  by (simp add: dedupCloud_def strict_sorted_iff distinct_wlDomains)

lemma sort_range_order:
  assumes "distinct ks" and "set ks = set (wlDomains cloud)"
  shows "sort ks = dedupCloud cloud"
proof -
  have "sorted (sort ks)" "distinct (sort ks)" "set (sort ks) = set (dedupCloud cloud)"
    using assms by (simp_all add: dedupCloud_def)
  moreover have "sorted (dedupCloud cloud)" "distinct (dedupCloud cloud)"
    using strict_sorted_dedupCloud [of cloud] by (simp_all add: strict_sorted_iff)
  ultimately show ?thesis
    by (metis sorted_distinct_set_unique)
qed

lemma updateFrom_OK_cases:
  assumes "updateFrom unmarshal b cfg = (OK, cfg')"
  obtains c u1 ps1 where "Client cfg = Some c"
    and "unmarshal b (clearCollections c cfg) = (None, u1)"
    and "ProxiedSites u1 = Some ps1"
    and "cfg' = (if 0 < len (Cloud ps1)
                 then u1\<lparr> ProxiedSites := Some (ps1\<lparr> Cloud := Some (dedupCloud (elems (Cloud ps1))) \<rparr>) \<rparr>
                 else u1)"
  using assms
  by (auto simp: updateFrom_def Let_def split: option.splits prod.splits if_splits)

text \<open>
  Claim C5 (dedup and sort of proxied sites). Whenever \<^verbatim>\<open>updateFrom\<close> succeeds and
  the cloud list of the configuration it leaves is non-empty, that list is strictly
  increasing in the bytewise order of strings (sorted, and no string twice), and it has
  exactly the elements of the list the deserializer produced.
\<close>

theorem updateFrom_dedup_sorted:
  assumes "updateFrom unmarshal b cfg = (OK, cfg')"
    and "ProxiedSites cfg' = Some ps"
    and "0 < len (Cloud ps)"
  shows "sorted_wrt (<) (elems (Cloud ps)) \<and>
         (\<exists>c u1 ps1. Client cfg = Some c \<and> unmarshal b (clearCollections c cfg) = (None, u1)
            \<and> ProxiedSites u1 = Some ps1
            \<and> set (elems (Cloud ps)) = set (elems (Cloud ps1)))"
proof -
  from assms(1) obtain c u1 ps1 where c: "Client cfg = Some c"
    and u: "unmarshal b (clearCollections c cfg) = (None, u1)"
    and p: "ProxiedSites u1 = Some ps1"
    and r: "cfg' = (if 0 < len (Cloud ps1)
                 then u1\<lparr> ProxiedSites := Some (ps1\<lparr> Cloud := Some (dedupCloud (elems (Cloud ps1))) \<rparr>) \<rparr>
                 else u1)"
    by (rule updateFrom_OK_cases)
  have pos: "0 < len (Cloud ps1)"
  proof (rule ccontr)
    assume "\<not> 0 < len (Cloud ps1)"
    with r p assms(2) have "ps = ps1" by simp
    with assms(3) \<open>\<not> 0 < len (Cloud ps1)\<close> show False by simp
  qed
  with r p assms(2) have "Cloud ps = Some (dedupCloud (elems (Cloud ps1)))"
    by auto
  then have "elems (Cloud ps) = dedupCloud (elems (Cloud ps1))"
    by (simp add: elems_def)
  with c u p show ?thesis
    using strict_sorted_dedupCloud set_dedupCloud by metis
qed

lemma example_merge:
  "updateFrom (yaml_Unmarshal parse_example) examplePayload exampleConfig = (OK, mergedExample)"
  by (simp add: updateFrom_def yaml_Unmarshal_def parse_example_def exampleDoc_def EmptyDoc_def
      decode_def decode_Client_def decode_ProxiedSites_def overwrite_def overwrite_ptr_def
      exampleConfig_def EmptyConfig_def exampleClient_def clearCollections_def len_def elems_def
      dedupCloud_def wlDomains_def mergedExample_def)

text \<open>
  The example of the claim: the payload carries \<open>[b.com, a.com, a.com]\<close> and the merged
  cloud list is \<open>[a.com, b.com]\<close>.
\<close>

theorem updateFrom_dedup_sorted_witness:
  "updateFrom (yaml_Unmarshal parse_example) examplePayload exampleConfig = (OK, mergedExample)
   \<and> ProxiedSites mergedExample = Some \<lparr> Delta = None, Cloud = Some [''a.com'', ''b.com''] \<rparr>
   \<and> 0 < len (Some [''a.com'', ''b.com''])
   \<and> sorted_wrt (<) [''a.com'', ''b.com'']"
proof -
  have p: "ProxiedSites mergedExample = Some \<lparr> Delta = None, Cloud = Some [''a.com'', ''b.com''] \<rparr>"
    by (simp add: mergedExample_def)
  have l: "0 < len (Cloud \<lparr> Delta = None, Cloud = Some [''a.com'', ''b.com''] \<rparr>)"
    by (simp add: len_def)
  from updateFrom_dedup_sorted [OF example_merge p l]
  have "sorted_wrt (<) (elems (Cloud \<lparr> Delta = None, Cloud = Some [''a.com'', ''b.com''] \<rparr>))"
    by blast
  then have "sorted_wrt (<) [''a.com'', ''b.com'']"
    by (simp add: elems_def)
  with example_merge p l show ?thesis by simp
qed





section \<open>Properties of the fetch\<close>

text \<open>
  Claim C3 (conditional fetch). When the request is built and the server answers it:
  on status 304 the fetch returns no body and no error and the cache is the one before
  the call; on status 200 the cache has the response's \<^verbatim>\<open>X-Lantern-Etag\<close> value
  for the URL (and is otherwise the one before), and when the body decompresses the
  fetch returns the decompressed bytes with no error.
\<close>

theorem fetchCloudConfig_conditional:
  assumes "NewRequest_error lib url = None"
    and "client (buildRequest url authToken cache) = Inr resp"
  shows "(StatusCode resp = 304 \<longrightarrow>
            fetchCloudConfig lib client url authToken cache = ((None, None), cache))
       \<and> (StatusCode resp = 200 \<longrightarrow>
            snd (fetchCloudConfig lib client url authToken cache)
              = fmupd url (Header_Get resp etag) cache
            \<and> cache_get (snd (fetchCloudConfig lib client url authToken cache)) url
              = Header_Get resp etag
            \<and> (\<forall>body. gunzip lib (Body resp) = Inflated body None \<longrightarrow>
                  fst (fetchCloudConfig lib client url authToken cache) = (Some body, None)))"
  using assms
  by (auto simp: fetchCloudConfig_def readConfigResponse_def cache_get_def Let_def
      split: gunzipped.splits)

text \<open>
  A first fetch with an empty cache is answered 200 with token \<open>v2\<close>; the second one
  sends the token and is answered 304.
\<close>

theorem fetchCloudConfig_conditional_witness:
  "fetchCloudConfig exampleLib exampleServer exampleURL [] fmempty
     = ((Some ''role: client'', None), fmupd exampleURL ''v2'' fmempty)
   \<and> fetchCloudConfig exampleLib exampleServer exampleURL [] (fmupd exampleURL ''v2'' fmempty)
     = ((None, None), fmupd exampleURL ''v2'' fmempty)"
proof -
  have n: "NewRequest_error exampleLib exampleURL = None"
    by (simp add: exampleLib_def)
  have r1: "exampleServer (buildRequest exampleURL [] fmempty)
              = Inr \<lparr> StatusCode = 200, Header = fmupd etag ''v2'' fmempty, Body = ''gz:role: client'' \<rparr>"
    by (simp add: exampleServer_def buildRequest_def cache_get_def Header_Set_def ifNoneMatch_def)
  have r2: "exampleServer (buildRequest exampleURL [] (fmupd exampleURL ''v2'' fmempty))
              = Inr \<lparr> StatusCode = 304, Header = fmempty, Body = [] \<rparr>"
    by (simp add: exampleServer_def buildRequest_def cache_get_def Header_Set_def ifNoneMatch_def)
  have g: "gunzip exampleLib ''gz:role: client'' = Inflated ''role: client'' None"
    by (simp add: exampleLib_def)
  note t1 = fetchCloudConfig_conditional [where client = exampleServer, OF n r1]
  note t2 = fetchCloudConfig_conditional [where client = exampleServer, OF n r2]
  from t1 g have a: "fetchCloudConfig exampleLib exampleServer exampleURL [] fmempty
     = ((Some ''role: client'', None), fmupd exampleURL ''v2'' fmempty)"
    by (simp add: prod_eq_iff Header_Get_def)
  from t2 have b: "fetchCloudConfig exampleLib exampleServer exampleURL [] (fmupd exampleURL ''v2'' fmempty)
     = ((None, None), fmupd exampleURL ''v2'' fmempty)"
    by simp
  from a b show ?thesis by simp
qed

text \<open>
  A fetch that fails before the body is read (the request cannot be built, the
  transport fails, or the status is neither 200 nor 304) leaves the cache as it was.
\<close>

lemma fetchCloudConfig_early_failure:
  assumes "fetchCloudConfig lib client url authToken cache = ((body, Some err), cache')"
    and "\<And>e. err \<noteq> GzipOpenError e" and "\<And>e. err \<noteq> ReadError e"
  shows "cache' = cache \<and> body = None"
  using assms
  by (auto simp: fetchCloudConfig_def readConfigResponse_def Let_def
      split: option.splits sum.splits if_splits gunzipped.splits)

text \<open>
  Claim C4 (a failed fetch leaves the cache untouched) fails for a decompression error:
  line 610 stores the new token before line 611 opens the gzip reader. With \<open>v1\<close>
  cached and a 200 response carrying \<open>v2\<close> and a body that is not gzip, the fetch
  returns the error and the cache holds \<open>v2\<close>.
\<close>

theorem readConfigResponse_token_before_gunzip:
  "fetchCloudConfig exampleLib corruptServer exampleURL [] (fmupd exampleURL ''v1'' fmempty)
     = ((None, Some (GzipOpenError ''gzip: invalid header'')), fmupd exampleURL ''v2'' fmempty)
   \<and> cache_get (fmupd exampleURL ''v1'' fmempty) exampleURL = ''v1''
   \<and> cache_get (fmupd exampleURL ''v2'' fmempty) exampleURL = ''v2''"
  by (simp add: fetchCloudConfig_def readConfigResponse_def exampleLib_def corruptServer_def
      cache_get_def Header_Get_def)

text \<open>
  Claim C6 (jitter bound). Whatever the poll does, the wait it returns is half the poll
  interval plus the value drawn by \<^verbatim>\<open>rand.Int63n\<close>; the interval is one minute, and
  for a draw in \<open>[0, interval)\<close> the wait is at least 30 seconds and less than 90
  seconds (and within the range of \<^verbatim>\<open>int64\<close>).
\<close>

theorem cloudPollSleepTime_bounds:
  assumes "0 \<le> draw" and "draw < CloudConfigPollInterval"
  shows "fst (snd (fst (pollWithHttpClient lib client draw cfg cache)))
           = CloudConfigPollInterval div 2 + draw
       \<and> cloudPollSleepTime draw = CloudConfigPollInterval div 2 + draw
       \<and> CloudConfigPollInterval = 60 * Second
       \<and> 30 * Second \<le> cloudPollSleepTime draw
       \<and> cloudPollSleepTime draw < 90 * Second
       \<and> cloudPollSleepTime draw < 2 ^ 63"
proof -
  have w: "fst (snd (fst (pollWithHttpClient lib client draw cfg cache))) = cloudPollSleepTime draw"
    by (simp add: pollWithHttpClient_def Let_def split: prod.splits option.splits)
  from assms show ?thesis
    unfolding w by (simp add: cloudPollSleepTime_def CloudConfigPollInterval_def Minute_def Second_def)
qed

text \<open>The largest draw gives one nanosecond less than 90 seconds.\<close>

theorem cloudPollSleepTime_bounds_witness:
  "(0::int) \<le> 59999999999 \<and> 59999999999 < CloudConfigPollInterval
   \<and> cloudPollSleepTime 59999999999 = 89999999999
   \<and> fst (snd (fst (pollWithHttpClient exampleLib exampleServer 59999999999 exampleConfig fmempty)))
        = 89999999999"
proof -
  have a: "(0::int) \<le> 59999999999" by simp
  have b: "59999999999 < CloudConfigPollInterval"
    by (simp add: CloudConfigPollInterval_def Minute_def Second_def)
  from cloudPollSleepTime_bounds [OF a b, of exampleLib exampleServer exampleConfig fmempty] a b
  show ?thesis
    by (simp add: CloudConfigPollInterval_def Minute_def Second_def)
qed

section \<open>What a merge writes\<close>







section \<open>Properties of the defaults\<close>






















section \<open>Properties of the bootstrap race\<close>














end
